theory Spec2Isabelle
  imports Complex_Main
begin

section \<open>Python values: exceptions and results\<close>

text \<open>
  The scripts compute with IEEE doubles; the model computes with \<open>real\<close>. Rounding and
  overflow to \<open>inf\<close> are therefore outside the model, and every statement below is one
  about exact arithmetic; \<open>nan\<close> is modelled where it decides a branch, as a value of the
  argument \<open>x_g\<close>. A Python exception is a value: a computation
  either returns (\<open>Return\<close>) or raises (\<open>Raise\<close>). Python's \<open>None\<close> is \<open>None\<close> of
  \<open>option\<close>.
\<close>

datatype exn = ValueError | ZeroDivisionError | IndexError | RuntimeError

datatype 'a res = Return 'a | Raise exn

text \<open>Division of two Python floats raises on a zero divisor.\<close>

definition py_div :: "real \<Rightarrow> real \<Rightarrow> real res" where
  "py_div a b = (if b = 0 then Raise ZeroDivisionError else Return (a / b))"

text \<open>Indexing a sequence, \<open>xs[i]\<close> with \<open>i \<ge> 0\<close>, raises out of range.\<close>

definition getitem :: "'a list \<Rightarrow> nat \<Rightarrow> 'a res" where
  "getitem xs i = (if i < length xs then Return (xs ! i) else Raise IndexError)"

text \<open>\<open>try: body  except: handler\<close> with a bare \<open>except\<close>, which catches everything.\<close>

definition try_except :: "'a res \<Rightarrow> 'a res \<Rightarrow> 'a res" where
  "try_except body handler = (case body of Return v \<Rightarrow> Return v | Raise e \<Rightarrow> handler)"

text \<open>
  An argument that may be \<open>nan\<close>: a number, or \<open>nan\<close>, with which every comparison is
  \<open>False\<close>. (The infinities are left out.)
\<close>

datatype pyfloat = Finite real | NaN

definition float_le :: "pyfloat \<Rightarrow> real \<Rightarrow> bool" where
  "float_le x c = (case x of Finite v \<Rightarrow> v \<le> c | NaN \<Rightarrow> False)"

definition float_ge :: "pyfloat \<Rightarrow> real \<Rightarrow> bool" where
  "float_ge x c = (case x of Finite v \<Rightarrow> v \<ge> c | NaN \<Rightarrow> False)"

section \<open>The library calls\<close>

text \<open>
  \<open>scipy.optimize.root_scalar(f, bracket=[lo, hi], method='brentq')\<close> is library code.
  Its documented precondition is built in: when \<open>f(lo)\<close> and \<open>f(hi)\<close> have the same
  strict sign the call raises \<open>ValueError\<close>. Everything after that check (the
  iteration, its result \<open>.root\<close>, the errors it may raise) is the parameter \<open>brent\<close>.
\<close>

type_synonym brentq = "(real \<Rightarrow> real) \<Rightarrow> real \<Rightarrow> real \<Rightarrow> real res"

definition root_scalar :: "brentq \<Rightarrow> (real \<Rightarrow> real) \<Rightarrow> real \<Rightarrow> real \<Rightarrow> real res" where
  "root_scalar brent f lo hi =
     (if f lo * f hi > 0 then Raise ValueError else brent f lo hi)"

text \<open>
  \<open>scipy.optimize.root(fun, x0, method='lm')\<close> is library code as well, and is the
  parameter \<open>rt\<close>: it is given the residual function and the initial guess, and returns
  a result object with the fields \<open>success\<close> and \<open>x\<close>, or raises.
\<close>

datatype sol = Sol (sol_success: bool) (sol_x: "real list")

type_synonym lm = "(real list \<Rightarrow> real list res) \<Rightarrow> real list \<Rightarrow> sol res"

text \<open>
  \<open>numpy.linspace(start, stop, num)\<close>: \<open>num\<close> evenly spaced samples, the last one set to
  \<open>stop\<close> itself.
\<close>

definition linspace :: "real \<Rightarrow> real \<Rightarrow> nat \<Rightarrow> real list" where
  "linspace start stop num =
     (if num = 0 then []
      else if num = 1 then [start]
      else map (\<lambda>i. start + real i * ((stop - start) / real (num - 1))) [0..<num - 1]
           @ [stop])"

section \<open>realistic\_model.py\<close>

text \<open>
  The module constants \<open>D\<close>, \<open>H\<close>, \<open>m_gondola\<close>, \<open>lam\<close> and \<open>g\<close> are parameters of the
  functions that read them.
\<close>

definition find_catenary_constant :: "real \<Rightarrow> real \<Rightarrow> real \<Rightarrow> real" where
  "find_catenary_constant D H a =
     (if a \<le> 0 then 1000000000 else a * (cosh (D / a) - 1) - H)"

text \<open>\<open>sol_a = root_scalar(find_catenary_constant, bracket=[0.1, 10000], method='brentq')\<close>\<close>

definition sol_a :: "brentq \<Rightarrow> real \<Rightarrow> real \<Rightarrow> real res" where
  "sol_a brent D H = root_scalar brent (find_catenary_constant D H) (1 / 10) 10000"

definition M_counterweight :: "real \<Rightarrow> real \<Rightarrow> real" where
  "M_counterweight a_static lam = a_static * lam"

text \<open>
  The residual function \<open>system(vars)\<close> inside \<open>solve_gondola_position\<close>. It reads
  \<open>x_g\<close>, \<open>M_cw\<close>, \<open>D\<close>, \<open>H\<close>, \<open>m_g\<close>, \<open>lam\<close> of the enclosing call and the module's \<open>g\<close>.
  Unpacking \<open>vars\<close> raises unless it has four entries. The divisions are numpy's, which
  do not raise; where a divisor is zero numpy yields \<open>inf\<close> or \<open>nan\<close> and the model
  says nothing.
\<close>

fun system ::
  "real \<Rightarrow> real \<Rightarrow> real \<Rightarrow> real \<Rightarrow> real \<Rightarrow> real \<Rightarrow> real \<Rightarrow> real list \<Rightarrow> real list res" where
  "system x_g M_cw D H m_g lam g [y_current, H_current, c1, c2] =
     (let a = H_current / (lam * g);
          y_left_end = a * cosh ((x_g - c1) / a) - a * cosh ((- c1) / a);
          v_shift = y_current - a * cosh ((x_g - c2) / a);
          y_right_end = a * cosh ((D - c2) / a) + v_shift;
          slope_L_gondola = sinh ((x_g - c1) / a);
          slope_R_gondola = sinh ((x_g - c2) / a);
          slope_L_anchor = sinh ((0 - c1) / a);
          force_err = H_current * (slope_R_gondola - slope_L_gondola) - (m_g * g);
          tension_err = H_current * sqrt (1 + slope_L_anchor\<^sup>2) - (M_cw * g)
      in Return [y_current - y_left_end, H - y_right_end, force_err, tension_err])"
| "system x_g M_cw D H m_g lam g vars = Raise ValueError"

text \<open>The initial guess: \<open>H_guess = M_cw * g\<close>, \<open>y_guess = (H/D) * x_g\<close>,
  \<open>vars_guess = [y_guess, H_guess, 0, D]\<close>.\<close>

definition vars_guess :: "real \<Rightarrow> real \<Rightarrow> real \<Rightarrow> real \<Rightarrow> real \<Rightarrow> real list res" where
  "vars_guess x_g M_cw D H g =
     (let H_guess = M_cw * g in
      case py_div H D of
        Raise e \<Rightarrow> Raise e
      | Return q \<Rightarrow> (let y_guess = q * x_g in Return [y_guess, H_guess, 0, D]))"

text \<open>The body of the \<open>try\<close>: the solve, then \<open>sol.x[0]\<close> on success and \<open>None\<close> otherwise.\<close>

definition solve_body :: "lm \<Rightarrow> (real list \<Rightarrow> real list res) \<Rightarrow> real list \<Rightarrow> real option res" where
  "solve_body rt F guess =
     (case rt F guess of
        Raise e \<Rightarrow> Raise e
      | Return sol \<Rightarrow>
          if sol_success sol
          then (case getitem (sol_x sol) 0 of Raise e \<Rightarrow> Raise e | Return y \<Rightarrow> Return (Some y))
          else Return None)"

definition solve_gondola_position ::
  "lm \<Rightarrow> real \<Rightarrow> real \<Rightarrow> real \<Rightarrow> real \<Rightarrow> real \<Rightarrow> real \<Rightarrow> real \<Rightarrow> real option res" where
  "solve_gondola_position rt x_g M_cw D H m_g lam g =
     (if x_g \<le> 0 then Return (Some 0)
      else if x_g \<ge> D then Return (Some H)
      else case vars_guess x_g M_cw D H g of
             Raise e \<Rightarrow> Raise e
           | Return guess \<Rightarrow>
               try_except (solve_body rt (system x_g M_cw D H m_g lam g) guess) (Return None))"

text \<open>
  The same function at an \<open>x_g\<close> that may be \<open>nan\<close>. Both guards are then \<open>False\<close>, and
  \<open>H_guess\<close> and \<open>y_guess = (H/D) * x_g\<close> are computed, before the \<open>try\<close> is entered; the
  library's solve is then seeded with a guess that holds \<open>nan\<close>, and what it returns or
  raises there is the parameter \<open>rt_nan\<close>. \<open>after_root\<close> is what the \<open>try\<close> does with the
  solve's outcome.
\<close>

definition after_root :: "sol res \<Rightarrow> real option res" where
  "after_root out =
     (case out of
        Raise e \<Rightarrow> Raise e
      | Return sol \<Rightarrow>
          if sol_success sol
          then (case getitem (sol_x sol) 0 of Raise e \<Rightarrow> Raise e | Return y \<Rightarrow> Return (Some y))
          else Return None)"

definition solve_gondola_position_float ::
  "lm \<Rightarrow> sol res \<Rightarrow> pyfloat \<Rightarrow> real \<Rightarrow> real \<Rightarrow> real \<Rightarrow> real \<Rightarrow> real \<Rightarrow> real \<Rightarrow> real option res" where
  "solve_gondola_position_float rt rt_nan x_g M_cw D H m_g lam g =
     (if float_le x_g 0 then Return (Some 0)
      else if float_ge x_g D then Return (Some H)
      else case py_div H D of
             Raise e \<Rightarrow> Raise e
           | Return q \<Rightarrow>
               (case x_g of
                  Finite x \<Rightarrow>
                    try_except (solve_body rt (system x M_cw D H m_g lam g) [q * x, M_cw * g, 0, D])
                      (Return None)
                | NaN \<Rightarrow> try_except (after_root rt_nan) (Return None)))"

text \<open>The static rail: \<open>a_static * (np.cosh(x/a_static) - 1)\<close>, a numpy division.\<close>

definition static_rail :: "real \<Rightarrow> real \<Rightarrow> real" where
  "static_rail a_static x = a_static * (cosh (x / a_static) - 1)"

text \<open>The second loop of the script's part 4: one entry of \<open>y_trajectory\<close> per sample,
  the static rail's height where the solve returned \<open>None\<close>.\<close>

fun y_trajectory ::
  "lm \<Rightarrow> real \<Rightarrow> real \<Rightarrow> real \<Rightarrow> real \<Rightarrow> real \<Rightarrow> real \<Rightarrow> real \<Rightarrow> real list \<Rightarrow> real list res" where
  "y_trajectory rt a_static M_cw D H m_g lam g [] = Return []"
| "y_trajectory rt a_static M_cw D H m_g lam g (x # xs) =
     (case solve_gondola_position rt x M_cw D H m_g lam g of
        Raise e \<Rightarrow> Raise e
      | Return y_traj \<Rightarrow>
          (let y = (case y_traj of None \<Rightarrow> static_rail a_static x | Some v \<Rightarrow> v) in
           case y_trajectory rt a_static M_cw D H m_g lam g xs of
             Raise e \<Rightarrow> Raise e
           | Return ys \<Rightarrow> Return (y # ys)))"

text \<open>What one run of the script computes before it plots.\<close>

record run =
  run_a_static :: real
  run_M_counterweight :: real
  run_base_tension_kN :: real
  run_x_vals :: "real list"
  run_y_static :: "real list"
  run_y_trajectory :: "real list"

definition realistic_model ::
  "brentq \<Rightarrow> lm \<Rightarrow> real \<Rightarrow> real \<Rightarrow> real \<Rightarrow> real \<Rightarrow> real \<Rightarrow> run res" where
  "realistic_model brent rt D H m_gondola lam g =
     (case sol_a brent D H of
        Raise e \<Rightarrow> Raise e
      | Return a_static \<Rightarrow>
          (let M = M_counterweight a_static lam;
               x_vals = linspace 0 D 50;
               y_static = map (static_rail a_static) x_vals
           in case y_trajectory rt a_static M D H m_gondola lam g x_vals of
                Raise e \<Rightarrow> Raise e
              | Return ys \<Rightarrow>
                  Return \<lparr>run_a_static = a_static, run_M_counterweight = M,
                          run_base_tension_kN = M * g / 1000, run_x_vals = x_vals,
                          run_y_static = y_static, run_y_trajectory = ys\<rparr>))"

section \<open>simulation\_01\_general.py\<close>

text \<open>
  \<open>solve_state(x_g)\<close> has the same residual function (with \<open>Tower_H\<close> for \<open>H\<close>) and
  its own guess, \<open>guess = [(Tower_H/D)*x_g - 5, M_cw*g, 0, D]\<close>. It has no \<open>try\<close>, and
  returns \<open>sol.x if sol.success else guess\<close>.
\<close>

definition solve_state_guess :: "real \<Rightarrow> real \<Rightarrow> real \<Rightarrow> real \<Rightarrow> real \<Rightarrow> real list res" where
  "solve_state_guess x_g M_cw D Tower_H g =
     (case py_div Tower_H D of
        Raise e \<Rightarrow> Raise e
      | Return q \<Rightarrow> Return [q * x_g - 5, M_cw * g, 0, D])"

definition solve_state ::
  "lm \<Rightarrow> real \<Rightarrow> real \<Rightarrow> real \<Rightarrow> real \<Rightarrow> real \<Rightarrow> real \<Rightarrow> real \<Rightarrow> real list res" where
  "solve_state rt x_g M_cw D Tower_H m_g lam g =
     (case solve_state_guess x_g M_cw D Tower_H g of
        Raise e \<Rightarrow> Raise e
      | Return guess \<Rightarrow>
          (case rt (system x_g M_cw D Tower_H m_g lam g) guess of
             Raise e \<Rightarrow> Raise e
           | Return sol \<Rightarrow> Return (if sol_success sol then sol_x sol else guess)))"

section \<open>Notions used to state the properties\<close>


text \<open>
  The four conditions of a loaded equilibrium, in the specification's words. A segment
  with catenary constant \<open>a\<close> and horizontal shift \<open>c\<close> has the height
  \<open>y(x) = a * cosh((x - c)/a) - a * cosh(-c/a)\<close> and the slope \<open>sinh((x - c)/a)\<close>; both
  segments share \<open>a = H_tension / (lam * g)\<close>. Within the tolerance \<open>tol\<close>: the left
  segment, anchored at (0, 0) with shift \<open>c1\<close>, is at \<open>y_g\<close> at \<open>x_g\<close>; the right segment,
  with shift \<open>c2\<close> and the vertical offset that puts it at \<open>y_g\<close> at \<open>x_g\<close>, passes through
  (D, H); the slope jump at \<open>x_g\<close> times \<open>H_tension\<close> is \<open>m_g * g\<close>; and the tension at the
  left anchor, \<open>H_tension * sqrt (1 + slope_left(0)\<^sup>2)\<close>, is \<open>M_cw * g\<close>.
\<close>

definition spec_height :: "real \<Rightarrow> real \<Rightarrow> real \<Rightarrow> real" where
  "spec_height a c x = a * cosh ((x - c) / a) - a * cosh (- c / a)"

definition spec_slope :: "real \<Rightarrow> real \<Rightarrow> real \<Rightarrow> real" where
  "spec_slope a c x = sinh ((x - c) / a)"

definition spec_equilibrium_within ::
  "real \<Rightarrow> real \<Rightarrow> real \<Rightarrow> real \<Rightarrow> real \<Rightarrow> real \<Rightarrow> real \<Rightarrow> real \<Rightarrow> real \<Rightarrow> real \<Rightarrow> real \<Rightarrow> real \<Rightarrow> bool" where
  "spec_equilibrium_within tol x_g M_cw D H m_g lam g y_g H_tension c1 c2 \<longleftrightarrow>
     (let a = H_tension / (lam * g) in
      \<bar>spec_height a c1 x_g - y_g\<bar> < tol \<and>
      \<bar>(y_g + (spec_height a c2 D - spec_height a c2 x_g)) - H\<bar> < tol \<and>
      \<bar>H_tension * (spec_slope a c2 x_g - spec_slope a c1 x_g) - m_g * g\<bar> < tol \<and>
      \<bar>H_tension * sqrt (1 + (spec_slope a c1 0)\<^sup>2) - M_cw * g\<bar> < tol)"

text \<open>The counterweight sizing a run reports: \<open>a_static\<close> and \<open>M_counterweight\<close>, or the
  exception that ended the run.\<close>

definition sizing :: "run res \<Rightarrow> (real \<times> real) res" where
  "sizing r = (case r of Raise e \<Rightarrow> Raise e
               | Return v \<Rightarrow> Return (run_a_static v, run_M_counterweight v))"

section \<open>The catenary's height as a function of its constant\<close>

text \<open>
  For a span \<open>D > 0\<close> the height \<open>a * (cosh (D / a) - 1)\<close> that the unloaded rope
  reaches at the far anchor falls strictly as the constant \<open>a > 0\<close> grows: its
  derivative is \<open>cosh u - 1 - u * sinh u\<close> at \<open>u = D / a\<close>, which is negative.
\<close>

lemma cosh_minus_one_less:
  fixes u :: real
  assumes "0 < u"
  shows "cosh u - 1 < u * sinh u"
proof -
  have "(\<lambda>t. t * sinh t - cosh t + 1) 0 < (\<lambda>t. t * sinh t - cosh t + 1) u"
  proof (rule DERIV_pos_imp_increasing_open [OF assms])
    fix t :: real
    assume t: "0 < t" "t < u"
    have "((\<lambda>t. t * sinh t - cosh t + 1) has_real_derivative t * cosh t) (at t)"
      by (auto intro!: derivative_eq_intros)
    moreover have "0 < t * cosh t" using t by simp
    ultimately show "\<exists>y. ((\<lambda>t. t * sinh t - cosh t + 1) has_real_derivative y) (at t) \<and> 0 < y"
      by blast
  next
    show "continuous_on {0..u} (\<lambda>t. t * sinh t - cosh t + 1)"
      by (intro continuous_intros)
  qed
  then show ?thesis by simp
qed

lemma catenary_height_deriv:
  fixes a :: real
  assumes "a \<noteq> 0"
  shows "((\<lambda>a. a * (cosh (D / a) - 1)) has_real_derivative
           (cosh (D / a) - 1 - (D / a) * sinh (D / a))) (at a)"
  using assms
  by (auto intro!: derivative_eq_intros simp: field_simps power2_eq_square)

lemma catenary_height_strict_antimono:
  fixes a b D :: real
  assumes "0 < a" "a < b" "0 < D"
  shows "b * (cosh (D / b) - 1) < a * (cosh (D / a) - 1)"
proof (rule DERIV_neg_imp_decreasing [OF \<open>a < b\<close>])
  fix z :: real
  assume z: "a \<le> z" "z \<le> b"
  then have z0: "0 < z" using assms by linarith
  then have "0 < D / z" using assms by simp
  then have "cosh (D / z) - 1 - (D / z) * sinh (D / z) < 0"
    using cosh_minus_one_less [of "D / z"] by simp
  then show "\<exists>y. ((\<lambda>a. a * (cosh (D / a) - 1)) has_real_derivative y) (at z) \<and> y < 0"
    using catenary_height_deriv [of z D] z0 by blast
qed

lemma catenary_height_antimono:
  fixes a b D :: real
  assumes "0 < a" "a \<le> b" "0 < D"
  shows "b * (cosh (D / b) - 1) \<le> a * (cosh (D / a) - 1)"
  using catenary_height_strict_antimono [of a b D] assms by (cases "a = b") auto





section \<open>The static-rail solve\<close>


lemma bracket_sign_change:
  assumes "0 < D" "1 / 10 \<le> a0" "a0 \<le> 10000"
  shows "find_catenary_constant D (a0 * (cosh (D / a0) - 1)) (1 / 10) *
         find_catenary_constant D (a0 * (cosh (D / a0) - 1)) 10000 \<le> 0"
proof -
  have "0 \<le> find_catenary_constant D (a0 * (cosh (D / a0) - 1)) (1 / 10)"
    using catenary_height_antimono [of "1 / 10" a0 D] assms
    by (simp add: find_catenary_constant_def)
  moreover have "find_catenary_constant D (a0 * (cosh (D / a0) - 1)) 10000 \<le> 0"
    using catenary_height_antimono [of a0 10000 D] assms
    by (simp add: find_catenary_constant_def)
  ultimately show ?thesis by (rule mult_nonneg_nonpos)
qed

lemma sol_a_known_root:
  assumes "0 < D" "1 / 10 \<le> a0" "a0 \<le> 10000"
  shows "sol_a brent D (a0 * (cosh (D / a0) - 1)) =
         brent (find_catenary_constant D (a0 * (cosh (D / a0) - 1))) (1 / 10) 10000"
  using bracket_sign_change [OF assms] by (simp add: sol_a_def root_scalar_def)





section \<open>The loaded solve and the sweep\<close>

lemma solve_gondola_position_total:
  "\<exists>v. solve_gondola_position rt x_g M_cw D H m_g lam g = Return v"
  by (auto simp: solve_gondola_position_def vars_guess_def py_div_def try_except_def Let_def
      split: res.splits)

lemma solve_interior:
  assumes "0 < x_g" "x_g < D"
  shows "solve_gondola_position rt x_g M_cw D H m_g lam g =
         try_except (solve_body rt (system x_g M_cw D H m_g lam g) [(H / D) * x_g, M_cw * g, 0, D])
           (Return None)"
  using assms by (simp add: solve_gondola_position_def vars_guess_def py_div_def Let_def)

lemma solve_body_cases:
  "solve_body rt F guess =
     (case rt F guess of
        Raise e \<Rightarrow> Raise e
      | Return s \<Rightarrow> if sol_success s
                     then (case sol_x s of [] \<Rightarrow> Raise IndexError | y # ys \<Rightarrow> Return (Some y))
                     else Return None)"
  by (simp add: solve_body_def getitem_def split: res.splits list.splits)

lemma solve_interior_cases:
  assumes "0 < x_g" "x_g < D"
  shows "solve_gondola_position rt x_g M_cw D H m_g lam g =
     Return (case rt (system x_g M_cw D H m_g lam g) [(H / D) * x_g, M_cw * g, 0, D] of
               Raise e \<Rightarrow> None
             | Return s \<Rightarrow> if sol_success s
                            then (case sol_x s of [] \<Rightarrow> None | y # ys \<Rightarrow> Some y)
                            else None)"
  using assms
  by (simp add: solve_interior solve_body_cases try_except_def split: res.splits list.splits)

text \<open>At a number the function that admits \<open>nan\<close> is the function above; at \<open>nan\<close> it
  divides by D before it enters the \<open>try\<close>.\<close>

lemma solve_gondola_position_float_Finite:
  "solve_gondola_position_float rt rt_nan (Finite x) M_cw D H m_g lam g =
   solve_gondola_position rt x M_cw D H m_g lam g"
  by (simp add: solve_gondola_position_float_def solve_gondola_position_def float_le_def
      float_ge_def vars_guess_def Let_def split: res.splits)

lemma try_except_total: "\<exists>v. try_except body (Return w) = Return v"
  by (cases body) (simp_all add: try_except_def)

lemma solve_gondola_position_float_NaN:
  "solve_gondola_position_float rt rt_nan NaN M_cw D H m_g lam g =
     (if D = 0 then Raise ZeroDivisionError else try_except (after_root rt_nan) (Return None))"
  by (simp add: solve_gondola_position_float_def float_le_def float_ge_def py_div_def)

text \<open>The residual function's four components, in the specification's terms.\<close>

lemma system_spec_residuals:
  "system x_g M_cw D H m_g lam g [y_g, Ht, c1, c2] =
     Return [y_g - spec_height (Ht / (lam * g)) c1 x_g,
             H - (y_g + (spec_height (Ht / (lam * g)) c2 D - spec_height (Ht / (lam * g)) c2 x_g)),
             Ht * (spec_slope (Ht / (lam * g)) c2 x_g - spec_slope (Ht / (lam * g)) c1 x_g) - m_g * g,
             Ht * sqrt (1 + (spec_slope (Ht / (lam * g)) c1 0)\<^sup>2) - M_cw * g]"
  by (simp add: spec_height_def spec_slope_def Let_def)

text \<open>The sweep returns one height per sample: entry \<open>i\<close> is the loop body's value at
  sample \<open>i\<close>.\<close>

lemma y_trajectory_nth:
  "\<exists>ys. y_trajectory rt a_static M_cw D H m_g lam g xs = Return ys \<and> length ys = length xs \<and>
     (\<forall>i < length xs. \<exists>y_traj.
        solve_gondola_position rt (xs ! i) M_cw D H m_g lam g = Return y_traj \<and>
        ys ! i = (case y_traj of None \<Rightarrow> static_rail a_static (xs ! i) | Some v \<Rightarrow> v))"
proof (induction xs)
  case Nil
  show ?case by simp
next
  case (Cons x xs)
  obtain v where v: "solve_gondola_position rt x M_cw D H m_g lam g = Return v"
    using solve_gondola_position_total by blast
  from Cons.IH obtain ys where ys: "y_trajectory rt a_static M_cw D H m_g lam g xs = Return ys"
    "length ys = length xs"
    and nth: "\<And>i. i < length xs \<Longrightarrow> \<exists>y_traj.
        solve_gondola_position rt (xs ! i) M_cw D H m_g lam g = Return y_traj \<and>
        ys ! i = (case y_traj of None \<Rightarrow> static_rail a_static (xs ! i) | Some v \<Rightarrow> v)"
    by blast
  let ?y = "case v of None \<Rightarrow> static_rail a_static x | Some w \<Rightarrow> w"
  have ret: "y_trajectory rt a_static M_cw D H m_g lam g (x # xs) = Return (?y # ys)"
    by (simp add: v ys)
  have "\<exists>y_traj. solve_gondola_position rt ((x # xs) ! i) M_cw D H m_g lam g = Return y_traj \<and>
          (?y # ys) ! i = (case y_traj of None \<Rightarrow> static_rail a_static ((x # xs) ! i) | Some v \<Rightarrow> v)"
    if "i < length (x # xs)" for i
  proof (cases i)
    case 0
    show ?thesis unfolding 0 using v by (cases v) simp_all
  next
    case (Suc j)
    then have "j < length xs" using that by simp
    from nth [OF this] show ?thesis unfolding Suc by (simp cong: option.case_cong)
  qed
  with ret ys show ?case by simp
qed

text \<open>Two sweeps that record the same height at every sample return the same list.\<close>

lemma y_trajectory_same_heights:
  assumes "\<And>x. x \<in> set xs \<Longrightarrow> \<exists>v1 v2.
      solve_gondola_position rt1 x M_cw D H m_g lam g = Return v1 \<and>
      solve_gondola_position rt2 x M_cw D H m_g lam g = Return v2 \<and>
      (case v1 of None \<Rightarrow> static_rail a_static x | Some w \<Rightarrow> w) =
      (case v2 of None \<Rightarrow> static_rail a_static x | Some w \<Rightarrow> w)"
  shows "y_trajectory rt1 a_static M_cw D H m_g lam g xs =
         y_trajectory rt2 a_static M_cw D H m_g lam g xs"
  using assms
proof (induction xs)
  case Nil
  show ?case by simp
next
  case (Cons x xs)
  from Cons.prems [of x] obtain v1 v2 where
    v: "solve_gondola_position rt1 x M_cw D H m_g lam g = Return v1"
       "solve_gondola_position rt2 x M_cw D H m_g lam g = Return v2"
       "(case v1 of None \<Rightarrow> static_rail a_static x | Some w \<Rightarrow> w) =
        (case v2 of None \<Rightarrow> static_rail a_static x | Some w \<Rightarrow> w)"
    by auto
  have "y_trajectory rt1 a_static M_cw D H m_g lam g xs =
        y_trajectory rt2 a_static M_cw D H m_g lam g xs"
    using Cons.prems by (intro Cons.IH) simp
  then show ?case using v by simp
qed

lemma nth_linspace_first: "1 < num \<Longrightarrow> linspace start stop num ! 0 = start"
  by (simp add: linspace_def nth_append)

lemma nth_linspace_last: "1 < num \<Longrightarrow> linspace start stop num ! (num - 1) = stop"
  by (simp add: linspace_def nth_append)

lemma length_linspace: "length (linspace start stop num) = num"
  by (simp add: linspace_def)

text \<open>The run: it ends in the static solve's exception, or returns with the sizing
  computed from the static solve's value.\<close>

lemma realistic_model_Raise:
  "sol_a brent D H = Raise e \<Longrightarrow> realistic_model brent rt D H m_gondola lam g = Raise e"
  by (simp add: realistic_model_def)

lemma realistic_model_Return:
  assumes "sol_a brent D H = Return a"
  shows "\<exists>ys. realistic_model brent rt D H m_gondola lam g =
           Return \<lparr>run_a_static = a, run_M_counterweight = a * lam,
                   run_base_tension_kN = a * lam * g / 1000, run_x_vals = linspace 0 D 50,
                   run_y_static = map (static_rail a) (linspace 0 D 50),
                   run_y_trajectory = ys\<rparr>"
proof -
  obtain ys where "y_trajectory rt a (a * lam) D H m_gondola lam g (linspace 0 D 50) = Return ys"
    using y_trajectory_nth by blast
  then show ?thesis
    using assms by (simp add: realistic_model_def M_counterweight_def Let_def)
qed

section \<open>Boundary samples\<close>

text \<open>
  Claim C3. For every valid parameter set (D > 0) the loaded solve returns exactly 0
  whenever \<open>x_g \<le> 0\<close> and exactly H whenever \<open>x_g \<ge> D\<close>, whatever the nonlinear
  solver would do (it is not called: the result does not depend on \<open>rt\<close>); so the
  sweep over \<open>linspace(0, D, 50)\<close> has 50 entries, the first exactly 0 and the last
  exactly H.
\<close>

theorem boundary_exact:
  assumes "0 < D"
  shows "(x_g \<le> 0 \<longrightarrow> solve_gondola_position rt x_g M_cw D H m_g lam g = Return (Some 0)) \<and>
         (D \<le> x_g \<longrightarrow> solve_gondola_position rt x_g M_cw D H m_g lam g = Return (Some H)) \<and>
         (\<exists>ys. y_trajectory rt a_static M_cw D H m_g lam g (linspace 0 D 50) = Return ys \<and>
               length ys = 50 \<and> hd ys = 0 \<and> last ys = H)"
proof (intro conjI impI)
  assume "x_g \<le> 0"
  then show "solve_gondola_position rt x_g M_cw D H m_g lam g = Return (Some 0)"
    by (simp add: solve_gondola_position_def)
next
  assume "D \<le> x_g"
  with assms show "solve_gondola_position rt x_g M_cw D H m_g lam g = Return (Some H)"
    by (simp add: solve_gondola_position_def)
next
  let ?xs = "linspace 0 D 50"
  obtain ys where ys: "y_trajectory rt a_static M_cw D H m_g lam g ?xs = Return ys"
    and len: "length ys = length ?xs"
    and nth: "\<And>i. i < length ?xs \<Longrightarrow> \<exists>y_traj.
        solve_gondola_position rt (?xs ! i) M_cw D H m_g lam g = Return y_traj \<and>
        ys ! i = (case y_traj of None \<Rightarrow> static_rail a_static (?xs ! i) | Some v \<Rightarrow> v)"
    using y_trajectory_nth [of rt a_static M_cw D H m_g lam g ?xs] by blast
  have len50: "length ys = 50" using len by (simp add: length_linspace)
  have first: "ys ! 0 = 0"
    using nth [of 0] by (simp add: length_linspace nth_linspace_first solve_gondola_position_def)
  have "?xs ! 49 = D" using nth_linspace_last [of 50 0 D] by simp
  then have final: "ys ! 49 = H"
    using nth [of 49] assms by (simp add: length_linspace solve_gondola_position_def)
  have ne: "ys \<noteq> []" using len50 by auto
  have "hd ys = ys ! 0" using ne by (rule hd_conv_nth)
  moreover have "last ys = ys ! (length ys - 1)" using ne by (rule last_conv_nth)
  ultimately show "\<exists>ys. y_trajectory rt a_static M_cw D H m_g lam g ?xs = Return ys \<and>
             length ys = 50 \<and> hd ys = 0 \<and> last ys = H"
    using ys len50 first final by simp
qed

text \<open>The script's own parameters, with a solver that raises whenever it is called.\<close>

theorem boundary_exact_witness:
  "(0::real) < 200 \<and>
   solve_gondola_position (\<lambda>F v. Raise RuntimeError) 0 2000 200 50 500 5 (981 / 100) = Return (Some 0) \<and>
   solve_gondola_position (\<lambda>F v. Raise RuntimeError) 200 2000 200 50 500 5 (981 / 100) = Return (Some 50) \<and>
   (\<exists>ys. y_trajectory (\<lambda>F v. Raise RuntimeError) 400 2000 200 50 500 5 (981 / 100) (linspace 0 200 50)
            = Return ys \<and> length ys = 50 \<and> hd ys = 0 \<and> last ys = 50)"
  using boundary_exact [of 200 0 "\<lambda>F v. Raise RuntimeError" 2000 50 500 5 "981 / 100" 400]
    boundary_exact [of 200 200 "\<lambda>F v. Raise RuntimeError" 2000 50 500 5 "981 / 100" 400]
  by simp

section \<open>Exceptions and the fallback\<close>

text \<open>
  Claim C9, as amended. The claim reads: for every input \<open>solve_gondola_position\<close>
  never propagates an exception. The guess is computed before the \<open>try\<close> is entered.
  What holds: at every \<open>x_g\<close> that is a number (where the function that admits \<open>nan\<close> is
  \<open>solve_gondola_position\<close>) the call returns, for real parameters and every behaviour
  of the nonlinear solver; for a sample strictly inside (0, D) it returns the solver's
  \<open>x[0]\<close> when the solver reports success, and \<open>None\<close> when the solver reports failure
  or anything inside the \<open>try\<close> raises; hence the sweep over a grid of numbers returns
  too, with one entry per sample. At \<open>x_g = nan\<close> both guards are \<open>False\<close>: the call
  returns when D is not 0 and raises \<open>ZeroDivisionError\<close> to its caller when D is 0.
\<close>

theorem no_exception_escapes:
  "solve_gondola_position_float rt rt_nan (Finite x_g) M_cw D H m_g lam g =
     solve_gondola_position rt x_g M_cw D H m_g lam g \<and>
   (\<exists>v. solve_gondola_position rt x_g M_cw D H m_g lam g = Return v) \<and>
   (0 < x_g \<and> x_g < D \<longrightarrow>
      solve_gondola_position rt x_g M_cw D H m_g lam g =
        Return (case rt (system x_g M_cw D H m_g lam g) [(H / D) * x_g, M_cw * g, 0, D] of
                  Raise e \<Rightarrow> None
                | Return s \<Rightarrow> if sol_success s
                               then (case sol_x s of [] \<Rightarrow> None | y # ys \<Rightarrow> Some y)
                               else None)) \<and>
   (\<exists>ys. y_trajectory rt a_static M_cw D H m_g lam g xs = Return ys \<and> length ys = length xs) \<and>
   (D \<noteq> 0 \<longrightarrow> (\<exists>v. solve_gondola_position_float rt rt_nan NaN M_cw D H m_g lam g = Return v)) \<and>
   solve_gondola_position_float rt rt_nan NaN M_cw 0 H m_g lam g = Raise ZeroDivisionError"
proof (intro conjI impI)
  show "solve_gondola_position_float rt rt_nan (Finite x_g) M_cw D H m_g lam g =
     solve_gondola_position rt x_g M_cw D H m_g lam g"
    by (rule solve_gondola_position_float_Finite)
next
  show "\<exists>v. solve_gondola_position rt x_g M_cw D H m_g lam g = Return v"
    by (rule solve_gondola_position_total)
next
  assume "0 < x_g \<and> x_g < D"
  then show "solve_gondola_position rt x_g M_cw D H m_g lam g =
        Return (case rt (system x_g M_cw D H m_g lam g) [(H / D) * x_g, M_cw * g, 0, D] of
                  Raise e \<Rightarrow> None
                | Return s \<Rightarrow> if sol_success s
                               then (case sol_x s of [] \<Rightarrow> None | y # ys \<Rightarrow> Some y)
                               else None)"
    by (simp add: solve_interior_cases)
next
  show "\<exists>ys. y_trajectory rt a_static M_cw D H m_g lam g xs = Return ys \<and> length ys = length xs"
    using y_trajectory_nth [of rt a_static M_cw D H m_g lam g xs] by blast
next
  assume "D \<noteq> 0"
  then show "\<exists>v. solve_gondola_position_float rt rt_nan NaN M_cw D H m_g lam g = Return v"
    by (simp add: solve_gondola_position_float_NaN try_except_total)
next
  show "solve_gondola_position_float rt rt_nan NaN M_cw 0 H m_g lam g = Raise ZeroDivisionError"
    by (simp add: solve_gondola_position_float_NaN)
qed

theorem no_exception_escapes_witness:
  "(\<exists>v. solve_gondola_position (\<lambda>F v. Raise RuntimeError) 100 2000 200 50 500 5 (981 / 100) = Return v) \<and>
   solve_gondola_position (\<lambda>F v. Raise RuntimeError) 100 2000 200 50 500 5 (981 / 100) = Return None \<and>
   solve_gondola_position (\<lambda>F v. Return (Sol True [])) 100 2000 200 50 500 5 (981 / 100) = Return None \<and>
   solve_gondola_position (\<lambda>F v. Return (Sol False [20, 19000, 1, 199])) 100 2000 200 50 500 5 (981 / 100)
     = Return None \<and>
   solve_gondola_position (\<lambda>F v. Return (Sol True [20, 19000, 1, 199])) 100 2000 200 50 500 5 (981 / 100)
     = Return (Some 20) \<and>
   (\<exists>ys. y_trajectory (\<lambda>F v. Raise RuntimeError) 400 2000 200 50 500 5 (981 / 100) [0, 100, 200]
            = Return ys \<and> length ys = length [0, 100, 200::real]) \<and>
   (\<exists>v. solve_gondola_position_float (\<lambda>F v. Raise RuntimeError) (Raise RuntimeError) NaN
           2000 200 50 500 5 (981 / 100) = Return v)"
  using no_exception_escapes [of "\<lambda>F v. Raise RuntimeError" "Raise RuntimeError" 100 2000 200 50 500 5
      "981 / 100" 400 "[0, 100, 200]"]
    no_exception_escapes [of "\<lambda>F v. Return (Sol True [])" "Raise RuntimeError" 100 2000 200 50 500 5
      "981 / 100" 400 "[]"]
    no_exception_escapes [of "\<lambda>F v. Return (Sol False [20, 19000, 1, 199])" "Raise RuntimeError" 100
      2000 200 50 500 5 "981 / 100" 400 "[]"]
    no_exception_escapes [of "\<lambda>F v. Return (Sol True [20, 19000, 1, 199])" "Raise RuntimeError" 100
      2000 200 50 500 5 "981 / 100" 400 "[]"]
  by simp

text \<open>
  The claim as stated fails: with \<open>x_g = nan\<close> and \<open>D = 0.0\<close> neither guard holds, \<open>H/D\<close>
  is evaluated outside the \<open>try\<close>, and the \<open>ZeroDivisionError\<close> reaches the caller.
\<close>

theorem nan_sample_zero_span_counterexample:
  "solve_gondola_position_float (\<lambda>F v. Raise RuntimeError) (Raise RuntimeError) NaN
     2000 0 50 500 5 (981 / 100) = Raise ZeroDivisionError"
  by (simp add: solve_gondola_position_float_def float_le_def float_ge_def py_div_def)

text \<open>
  Claim C5. Whenever the nonlinear solve for an interior sample reports non-convergence
  or raises, the sweep records for that sample exactly the static rail's height
  \<open>a_static * (cosh (x_g / a_static) - 1)\<close>; and the sweep returns a list with a value
  for every sample.
\<close>

theorem fallback_is_static_rail:
  "\<exists>ys. y_trajectory rt a_static M_cw D H m_g lam g xs = Return ys \<and> length ys = length xs \<and>
     (\<forall>i < length xs. 0 < xs ! i \<and> xs ! i < D \<and>
        (case rt (system (xs ! i) M_cw D H m_g lam g) [(H / D) * (xs ! i), M_cw * g, 0, D] of
           Raise e \<Rightarrow> True | Return s \<Rightarrow> \<not> sol_success s)
        \<longrightarrow> ys ! i = a_static * (cosh (xs ! i / a_static) - 1))"
proof -
  obtain ys where ys: "y_trajectory rt a_static M_cw D H m_g lam g xs = Return ys"
    "length ys = length xs"
    and nth: "\<And>i. i < length xs \<Longrightarrow> \<exists>y_traj.
        solve_gondola_position rt (xs ! i) M_cw D H m_g lam g = Return y_traj \<and>
        ys ! i = (case y_traj of None \<Rightarrow> static_rail a_static (xs ! i) | Some v \<Rightarrow> v)"
    using y_trajectory_nth [of rt a_static M_cw D H m_g lam g xs] by blast
  have "ys ! i = a_static * (cosh (xs ! i / a_static) - 1)"
    if i: "i < length xs" and x: "0 < xs ! i" "xs ! i < D"
      and f: "case rt (system (xs ! i) M_cw D H m_g lam g) [(H / D) * (xs ! i), M_cw * g, 0, D] of
                Raise e \<Rightarrow> True | Return s \<Rightarrow> \<not> sol_success s" for i
  proof -
    have "solve_gondola_position rt (xs ! i) M_cw D H m_g lam g = Return None"
      using f by (simp add: solve_interior_cases [OF x] split: res.splits)
    then show ?thesis using nth [OF i] by (auto simp: static_rail_def)
  qed
  with ys show ?thesis by blast
qed

theorem fallback_is_static_rail_witness:
  "\<exists>ys. y_trajectory (\<lambda>F v. Return (Sol False v)) 400 2000 200 50 500 5 (981 / 100) [0, 100, 200]
           = Return ys \<and> length ys = 3 \<and> ys ! 1 = 400 * (cosh (100 / 400) - 1)"
proof -
  obtain ys where ys: "y_trajectory (\<lambda>F v. Return (Sol False v)) 400 2000 200 50 500 5 (981 / 100) [0, 100, 200]
           = Return ys" "length ys = length [0, 100, 200::real]"
    and fb: "\<forall>i < length [0, 100, 200::real]. 0 < [0, 100, 200::real] ! i \<and> [0, 100, 200::real] ! i < 200 \<and>
        (case (\<lambda>F v. Return (Sol False v)) (system ([0, 100, 200] ! i) 2000 200 50 500 5 (981 / 100))
                [(50 / 200) * ([0, 100, 200] ! i), 2000 * (981 / 100), 0, 200] of
           Raise e \<Rightarrow> True | Return s \<Rightarrow> \<not> sol_success s)
        \<longrightarrow> ys ! i = 400 * (cosh ([0, 100, 200] ! i / 400) - 1)"
    using fallback_is_static_rail [of "\<lambda>F v. Return (Sol False v)" 400 2000 200 50 500 5 "981 / 100"
        "[0, 100, 200]"]
    by blast
  from fb have "ys ! 1 = 400 * (cosh (100 / 400) - 1)"
    by simp
  with ys show ?thesis by simp
qed

section \<open>Counterweight sizing\<close>

text \<open>
  Claim C7. Counterweight sizing is a pure derivation from the static solve's value:
  \<open>M_counterweight = a_static * lam\<close> for every \<open>a_static\<close> and \<open>lam\<close>, and whenever the
  static solve returns \<open>a_static\<close> the run returns with that value, with the mass
  \<open>a_static * lam\<close> and with the base tension \<open>M_counterweight * g\<close> (reported in kN), no
  further solve being involved in either.
\<close>

theorem counterweight_sizing:
  assumes "sol_a brent D H = Return a_static"
  shows "M_counterweight a_static lam = a_static * lam \<and>
         (\<exists>r. realistic_model brent rt D H m_gondola lam g = Return r \<and>
              run_a_static r = a_static \<and>
              run_M_counterweight r = a_static * lam \<and>
              run_base_tension_kN r = run_M_counterweight r * g / 1000)"
proof -
  obtain ys where "realistic_model brent rt D H m_gondola lam g =
           Return \<lparr>run_a_static = a_static, run_M_counterweight = a_static * lam,
                   run_base_tension_kN = a_static * lam * g / 1000, run_x_vals = linspace 0 D 50,
                   run_y_static = map (static_rail a_static) (linspace 0 D 50),
                   run_y_trajectory = ys\<rparr>"
    using realistic_model_Return [OF assms] by blast
  then show ?thesis by (simp add: M_counterweight_def)
qed

theorem counterweight_sizing_witness:
  "M_counterweight 400 5 = 400 * 5 \<and>
   (\<exists>r. realistic_model (\<lambda>f lo hi. Return 400) (\<lambda>F v. Raise RuntimeError)
           200 (400 * (cosh (200 / 400) - 1)) 500 5 (981 / 100) = Return r \<and>
        run_a_static r = 400 \<and> run_M_counterweight r = 400 * 5 \<and>
        run_base_tension_kN r = run_M_counterweight r * (981 / 100) / 1000)"
proof -
  have "sol_a (\<lambda>f lo hi. Return 400) 200 (400 * (cosh (200 / 400) - 1)) = Return 400"
    by (subst sol_a_known_root) simp_all
  from counterweight_sizing [OF this, of 5 "\<lambda>F v. Raise RuntimeError" 500 "981 / 100"]
  show ?thesis by simp
qed

text \<open>
  Claim C10. The counterweight sizing does not depend on the gondola's mass or on
  gravity: two runs with the same D, H and lam (and the same root finder) report the
  same \<open>a_static\<close> and the same \<open>M_counterweight\<close>, or end in the same exception of the
  static solve, whatever their \<open>m_gondola\<close>, \<open>g\<close> and nonlinear solver are; the sizing is
  what the static solve gives, and that reads D and H only.
\<close>

theorem sizing_independent_of_load_and_gravity:
  "sizing (realistic_model brent rt1 D H m1 lam g1) = sizing (realistic_model brent rt2 D H m2 lam g2) \<and>
   sizing (realistic_model brent rt1 D H m1 lam g1) =
     (case sol_a brent D H of Raise e \<Rightarrow> Raise e | Return a \<Rightarrow> Return (a, a * lam))"
proof -
  have eq: "sizing (realistic_model brent rt D H m lam g) =
        (case sol_a brent D H of Raise e \<Rightarrow> Raise e | Return a \<Rightarrow> Return (a, a * lam))"
    for rt m g
  proof (cases "sol_a brent D H")
    case (Return a)
    from realistic_model_Return [OF this, of rt m lam g] show ?thesis
      using Return by (auto simp: sizing_def)
  next
    case (Raise e)
    from realistic_model_Raise [OF this, of rt m lam g] show ?thesis
      using Raise by (simp add: sizing_def)
  qed
  show ?thesis by (simp add: eq)
qed

text \<open>Two runs at D = 200 with the gondola at 500 kg under 9.81 and at 250 kg under 1.62.\<close>

theorem sizing_independent_of_load_and_gravity_witness:
  "sizing (realistic_model (\<lambda>f lo hi. Return 400) (\<lambda>F v. Raise RuntimeError)
             200 (400 * (cosh (200 / 400) - 1)) 500 5 (981 / 100)) =
   sizing (realistic_model (\<lambda>f lo hi. Return 400) (\<lambda>F v. Return (Sol False v))
             200 (400 * (cosh (200 / 400) - 1)) 250 5 (162 / 100)) \<and>
   sizing (realistic_model (\<lambda>f lo hi. Return 400) (\<lambda>F v. Raise RuntimeError)
             200 (400 * (cosh (200 / 400) - 1)) 500 5 (981 / 100)) = Return (400, 2000)"
proof -
  let ?H = "400 * (cosh (200 / 400) - 1) :: real"
  let ?A = "sizing (realistic_model (\<lambda>f lo hi. Return 400) (\<lambda>F v. Raise RuntimeError)
             200 ?H 500 5 (981 / 100))"
  let ?B = "sizing (realistic_model (\<lambda>f lo hi. Return 400) (\<lambda>F v. Return (Sol False v))
             200 ?H 250 5 (162 / 100))"
  have sa: "sol_a (\<lambda>f lo hi. Return 400) 200 ?H = Return 400"
    by (subst sol_a_known_root) simp_all
  have both: "?A = ?B \<and>
      ?A = (case sol_a (\<lambda>f lo hi. Return 400) 200 ?H of Raise e \<Rightarrow> Raise e
            | Return a \<Rightarrow> Return (a, a * 5))"
    by (rule sizing_independent_of_load_and_gravity)
  then have "?A = (case sol_a (\<lambda>f lo hi. Return 400) 200 ?H of Raise e \<Rightarrow> Raise e
            | Return a \<Rightarrow> Return (a, a * 5))"
    by (rule conjunct2)
  also have "\<dots> = Return (400, 2000)"
    unfolding sa by simp
  finally have "?A = Return (400, 2000)" .
  with both show ?thesis by blast
qed

section \<open>The initial guess\<close>

text \<open>
  Claim C8, as amended. The claim reads: the guess is built afresh for every sample as
  the linear interpolation between the anchors minus a small sag bias, with H_tension at
  \<open>M_cw * g\<close>, c1 at 0 and c2 at D. In \<open>realistic_model.py\<close> there is no sag bias. What
  holds: for every sample strictly inside (0, D) the solver of \<open>solve_gondola_position\<close>
  is called with the guess \<open>[(H / D) * x_g, M_cw * g, 0, D]\<close>, the interpolated height
  itself, and the solver of \<open>solve_state\<close> in \<open>simulation_01_general.py\<close> with
  \<open>[(H / D) * x_g - 5, M_cw * g, 0, D]\<close>, a sag bias of 5; either guess is a function of
  the sample and the parameters alone.
\<close>

theorem initial_guess:
  assumes "0 < x_g" "x_g < D"
  shows "vars_guess x_g M_cw D H g = Return [(H / D) * x_g, M_cw * g, 0, D] \<and>
         solve_gondola_position rt x_g M_cw D H m_g lam g =
           try_except (solve_body rt (system x_g M_cw D H m_g lam g) [(H / D) * x_g, M_cw * g, 0, D])
             (Return None) \<and>
         solve_state_guess x_g M_cw D H g = Return [(H / D) * x_g - 5, M_cw * g, 0, D] \<and>
         solve_state rt x_g M_cw D H m_g lam g =
           (case rt (system x_g M_cw D H m_g lam g) [(H / D) * x_g - 5, M_cw * g, 0, D] of
              Raise e \<Rightarrow> Raise e
            | Return s \<Rightarrow> Return (if sol_success s then sol_x s
                                   else [(H / D) * x_g - 5, M_cw * g, 0, D]))"
  using assms
  by (simp add: solve_interior vars_guess_def solve_state_guess_def solve_state_def py_div_def
      split: res.splits)

theorem initial_guess_witness:
  "vars_guess 100 2000 200 50 (981 / 100) = Return [25, 19620, 0, 200] \<and>
   solve_gondola_position (\<lambda>F v. Return (Sol True v)) 100 2000 200 50 500 5 (981 / 100) = Return (Some 25) \<and>
   solve_state_guess 100 2000 200 50 (981 / 100) = Return [20, 19620, 0, 200] \<and>
   solve_state (\<lambda>F v. Return (Sol False [])) 100 2000 200 50 500 5 (981 / 100) = Return [20, 19620, 0, 200]"
  using initial_guess [of 100 200 2000 50 "981 / 100" "\<lambda>F v. Return (Sol True v)" 500 5]
    initial_guess [of 100 200 2000 50 "981 / 100" "\<lambda>F v. Return (Sol False [])" 500 5]
  by (simp add: try_except_def solve_body_def getitem_def)

text \<open>
  The claim as stated fails in \<open>realistic_model.py\<close>: at the mid-span sample of the
  script's own parameters the seeded height is 25, the interpolated height
  \<open>(50 / 200) * 100\<close> itself and not below it.
\<close>

theorem initial_guess_no_sag_bias_counterexample:
  "vars_guess 100 2000 200 50 (981 / 100) = Return [25, 19620, 0, 200] \<and>
   \<not> (25 < (50 / 200) * (100::real))"
  by (simp add: vars_guess_def py_div_def)

section \<open>What the sweep's output holds\<close>

text \<open>
  Claim C6, as amended. The claim reads: the sweep's output records for every sample
  whether the solve converged or the fallback was used. The output is the list
  \<open>y_trajectory\<close> of heights and nothing else. What holds: the sweep returns one height
  per sample, in the order of the samples, the solver's \<open>y_g\<close> where the solve returned
  one and the static rail's height where it returned \<open>None\<close>; which of the two a height
  is cannot be read off the list.
\<close>

theorem sweep_output_is_heights_only:
  "\<exists>ys. y_trajectory rt a_static M_cw D H m_g lam g xs = Return ys \<and> length ys = length xs \<and>
     (\<forall>i < length xs. \<exists>y_traj.
        solve_gondola_position rt (xs ! i) M_cw D H m_g lam g = Return y_traj \<and>
        ys ! i = (case y_traj of None \<Rightarrow> a_static * (cosh (xs ! i / a_static) - 1) | Some v \<Rightarrow> v))"
  using y_trajectory_nth [of rt a_static M_cw D H m_g lam g xs]
  unfolding static_rail_def .

theorem sweep_output_is_heights_only_witness:
  "\<exists>ys. y_trajectory (\<lambda>F v. Raise RuntimeError) 400 2000 200 50 0 5 (981 / 100) [0, 100, 200]
          = Return ys \<and> length ys = 3 \<and> ys ! 0 = 0 \<and> ys ! 1 = 400 * (cosh (100 / 400) - 1) \<and>
          ys ! 2 = 50"
proof -
  let ?rt = "\<lambda>(F :: real list \<Rightarrow> real list res) (v :: real list). Raise RuntimeError :: sol res"
  obtain ys where ys: "y_trajectory ?rt 400 2000 200 50 0 5 (981 / 100) [0, 100, 200] = Return ys"
    "length ys = length [0, 100, 200::real]"
    and nth: "\<And>i. i < length [0, 100, 200::real] \<Longrightarrow> \<exists>y_traj.
        solve_gondola_position ?rt ([0, 100, 200] ! i) 2000 200 50 0 5 (981 / 100) = Return y_traj \<and>
        ys ! i = (case y_traj of None \<Rightarrow> 400 * (cosh ([0, 100, 200] ! i / 400) - 1) | Some v \<Rightarrow> v)"
    using sweep_output_is_heights_only [of ?rt 400 2000 200 50 0 5 "981 / 100" "[0, 100, 200]"]
    by blast
  have s0: "solve_gondola_position ?rt 0 2000 200 50 0 5 (981 / 100) = Return (Some 0)"
    by (simp add: solve_gondola_position_def)
  have s1: "solve_gondola_position ?rt 100 2000 200 50 0 5 (981 / 100) = Return None"
    by (simp add: solve_interior_cases)
  have s2: "solve_gondola_position ?rt 200 2000 200 50 0 5 (981 / 100) = Return (Some 50)"
    by (simp add: solve_gondola_position_def)
  have "ys ! 0 = 0" using nth [of 0] s0 by simp
  moreover have "ys ! 1 = 400 * (cosh (100 / 400) - 1)" using nth [of 1] s1 by simp
  moreover have "ys ! 2 = 50" using nth [of 2] s2 by simp
  ultimately show ?thesis using ys by simp
qed

text \<open>
  The claim as stated fails. Take D = 200 and the height H that the rope constant 400
  reaches, a root finder that returns 400, and a gondola of mass 0, for which the loaded
  rope is the static rail. A run whose nonlinear solver raises at every interior
  sample, so that every interior entry is a fallback, and a run whose solver converges
  at every interior sample to the static rail's height return the same record: the
  sample at x = 100 is degraded in the first and converged in the second, and no
  consumer of the output can tell.
\<close>

theorem sweep_status_not_recorded_counterexample:
  "realistic_model (\<lambda>f lo hi. Return 400) (\<lambda>F v. Raise RuntimeError)
     200 (400 * (cosh (200 / 400) - 1)) 0 5 (981 / 100) =
   realistic_model (\<lambda>f lo hi. Return 400)
     (\<lambda>F v. Return (Sol True [static_rail 400 (hd v * (200 / (400 * (cosh (200 / 400) - 1)))),
                              hd (tl v), 0, 200]))
     200 (400 * (cosh (200 / 400) - 1)) 0 5 (981 / 100) \<and>
   solve_gondola_position (\<lambda>F v. Raise RuntimeError)
     100 2000 200 (400 * (cosh (200 / 400) - 1)) 0 5 (981 / 100) = Return None \<and>
   solve_gondola_position
     (\<lambda>F v. Return (Sol True [static_rail 400 (hd v * (200 / (400 * (cosh (200 / 400) - 1)))),
                              hd (tl v), 0, 200]))
     100 2000 200 (400 * (cosh (200 / 400) - 1)) 0 5 (981 / 100) = Return (Some (static_rail 400 100))"
proof -
  define H0 :: real where "H0 = 400 * (cosh (200 / 400) - 1)"
  let ?A = "\<lambda>(F :: real list \<Rightarrow> real list res) (v :: real list). Raise RuntimeError :: sol res"
  let ?B = "\<lambda>(F :: real list \<Rightarrow> real list res) v.
              Return (Sol True [static_rail 400 (hd v * (200 / H0)), hd (tl v), 0, 200])"
  have H0: "H0 \<noteq> 0" by (simp add: H0_def)
  have B: "solve_gondola_position ?B x 2000 200 H0 0 5 (981 / 100) = Return (Some (static_rail 400 x))"
    if "0 < x" "x < 200" for x :: real
    using that H0 by (simp add: solve_interior_cases)
  have A: "solve_gondola_position ?A x 2000 200 H0 0 5 (981 / 100) = Return None"
    if "0 < x" "x < 200" for x :: real
    using that by (simp add: solve_interior_cases)
  have same: "\<exists>v1 v2.
      solve_gondola_position ?A x 2000 200 H0 0 5 (981 / 100) = Return v1 \<and>
      solve_gondola_position ?B x 2000 200 H0 0 5 (981 / 100) = Return v2 \<and>
      (case v1 of None \<Rightarrow> static_rail 400 x | Some w \<Rightarrow> w) =
      (case v2 of None \<Rightarrow> static_rail 400 x | Some w \<Rightarrow> w)" for x :: real
  proof -
    consider "x \<le> 0" | "200 \<le> x" | "0 < x" "x < 200" by linarith
    then show ?thesis
    proof cases
      case 1
      then show ?thesis by (simp add: solve_gondola_position_def)
    next
      case 2
      then show ?thesis by (simp add: solve_gondola_position_def)
    next
      case 3
      from A [OF 3] B [OF 3] show ?thesis by auto
    qed
  qed
  have traj: "y_trajectory ?A 400 2000 200 H0 0 5 (981 / 100) (linspace 0 200 50) =
        y_trajectory ?B 400 2000 200 H0 0 5 (981 / 100) (linspace 0 200 50)"
    by (rule y_trajectory_same_heights) (rule same)
  have sa: "sol_a (\<lambda>f lo hi. Return 400) 200 H0 = Return 400"
    unfolding H0_def by (subst sol_a_known_root) simp_all
  have M: "M_counterweight 400 5 = 2000" by (simp add: M_counterweight_def)
  have "realistic_model (\<lambda>f lo hi. Return 400) ?A 200 H0 0 5 (981 / 100) =
        realistic_model (\<lambda>f lo hi. Return 400) ?B 200 H0 0 5 (981 / 100)"
    unfolding realistic_model_def sa M Let_def res.case traj ..
  moreover have "solve_gondola_position ?A 100 2000 200 H0 0 5 (981 / 100) = Return None"
    by (rule A) simp_all
  moreover have "solve_gondola_position ?B 100 2000 200 H0 0 5 (981 / 100)
                 = Return (Some (static_rail 400 100))"
    by (rule B) simp_all
  ultimately show ?thesis unfolding H0_def by blast
qed

section \<open>The four conditions of a converged solution\<close>

text \<open>
  Claim C2, as amended. The claim reads: every converged solution
  \<open>(y_g, H_tension, c1, c2)\<close> returned by the loaded solve satisfies the four conditions
  within the tolerance. The code returns whatever the library's solve reports as a
  success and checks no residual itself. What holds: the four components of the
  residual function handed to the solver are the four conditions' gaps (left segment
  at the gondola, right segment through (D, H), force balance at the kink, tension at
  the left anchor), so at a vector with non-zero tension the four conditions hold
  within \<open>tol\<close> exactly when each component of \<open>system\<close> there is below \<open>tol\<close> in
  absolute value; and a vector the solver reports as a success is returned as it is,
  its height by \<open>solve_gondola_position\<close> and the whole of it by \<open>solve_state\<close>.
\<close>

theorem residuals_are_the_four_conditions:
  assumes "Ht \<noteq> 0" "lam \<noteq> 0" "g \<noteq> 0"
  shows "(\<exists>r1 r2 r3 r4.
            system x_g M_cw D H m_g lam g [y_g, Ht, c1, c2] = Return [r1, r2, r3, r4] \<and>
            r1 = y_g - spec_height (Ht / (lam * g)) c1 x_g \<and>
            r2 = H - (y_g + (spec_height (Ht / (lam * g)) c2 D - spec_height (Ht / (lam * g)) c2 x_g)) \<and>
            r3 = Ht * (spec_slope (Ht / (lam * g)) c2 x_g - spec_slope (Ht / (lam * g)) c1 x_g) - m_g * g \<and>
            r4 = Ht * sqrt (1 + (spec_slope (Ht / (lam * g)) c1 0)\<^sup>2) - M_cw * g \<and>
            (spec_equilibrium_within tol x_g M_cw D H m_g lam g y_g Ht c1 c2 \<longleftrightarrow>
               \<bar>r1\<bar> < tol \<and> \<bar>r2\<bar> < tol \<and> \<bar>r3\<bar> < tol \<and> \<bar>r4\<bar> < tol)) \<and>
         (0 < x_g \<and> x_g < D \<and>
          rt (system x_g M_cw D H m_g lam g) [(H / D) * x_g, M_cw * g, 0, D]
            = Return (Sol True [y_g, Ht, c1, c2])
          \<longrightarrow> solve_gondola_position rt x_g M_cw D H m_g lam g = Return (Some y_g)) \<and>
         (0 < x_g \<and> x_g < D \<and>
          rt (system x_g M_cw D H m_g lam g) [(H / D) * x_g - 5, M_cw * g, 0, D]
            = Return (Sol True [y_g, Ht, c1, c2])
          \<longrightarrow> solve_state rt x_g M_cw D H m_g lam g = Return [y_g, Ht, c1, c2])"
proof (intro conjI impI)
  have within: "spec_equilibrium_within tol x_g M_cw D H m_g lam g y_g Ht c1 c2 \<longleftrightarrow>
      \<bar>y_g - spec_height (Ht / (lam * g)) c1 x_g\<bar> < tol \<and>
      \<bar>H - (y_g + (spec_height (Ht / (lam * g)) c2 D - spec_height (Ht / (lam * g)) c2 x_g))\<bar> < tol \<and>
      \<bar>Ht * (spec_slope (Ht / (lam * g)) c2 x_g - spec_slope (Ht / (lam * g)) c1 x_g) - m_g * g\<bar> < tol \<and>
      \<bar>Ht * sqrt (1 + (spec_slope (Ht / (lam * g)) c1 0)\<^sup>2) - M_cw * g\<bar> < tol"
    unfolding spec_equilibrium_within_def Let_def
    by (simp only: abs_minus_commute [of "spec_height (Ht / (lam * g)) c1 x_g" y_g]
        abs_minus_commute [of "y_g + (spec_height (Ht / (lam * g)) c2 D - spec_height (Ht / (lam * g)) c2 x_g)" H])
  show "\<exists>r1 r2 r3 r4.
            system x_g M_cw D H m_g lam g [y_g, Ht, c1, c2] = Return [r1, r2, r3, r4] \<and>
            r1 = y_g - spec_height (Ht / (lam * g)) c1 x_g \<and>
            r2 = H - (y_g + (spec_height (Ht / (lam * g)) c2 D - spec_height (Ht / (lam * g)) c2 x_g)) \<and>
            r3 = Ht * (spec_slope (Ht / (lam * g)) c2 x_g - spec_slope (Ht / (lam * g)) c1 x_g) - m_g * g \<and>
            r4 = Ht * sqrt (1 + (spec_slope (Ht / (lam * g)) c1 0)\<^sup>2) - M_cw * g \<and>
            (spec_equilibrium_within tol x_g M_cw D H m_g lam g y_g Ht c1 c2 \<longleftrightarrow>
               \<bar>r1\<bar> < tol \<and> \<bar>r2\<bar> < tol \<and> \<bar>r3\<bar> < tol \<and> \<bar>r4\<bar> < tol)"
    using system_spec_residuals [of x_g M_cw D H m_g lam g y_g Ht c1 c2] within by blast
next
  assume "0 < x_g \<and> x_g < D \<and>
          rt (system x_g M_cw D H m_g lam g) [(H / D) * x_g, M_cw * g, 0, D]
            = Return (Sol True [y_g, Ht, c1, c2])"
  then show "solve_gondola_position rt x_g M_cw D H m_g lam g = Return (Some y_g)"
    by (simp add: solve_interior_cases)
next
  assume "0 < x_g \<and> x_g < D \<and>
          rt (system x_g M_cw D H m_g lam g) [(H / D) * x_g - 5, M_cw * g, 0, D]
            = Return (Sol True [y_g, Ht, c1, c2])"
  then show "solve_state rt x_g M_cw D H m_g lam g = Return [y_g, Ht, c1, c2]"
    by (simp add: solve_state_def solve_state_guess_def py_div_def)
qed

theorem residuals_are_the_four_conditions_witness:
  "(\<exists>r1 r2 r3 r4.
      system 100 2000 200 50 500 5 (981 / 100) [25, 19620, 0, 200] = Return [r1, r2, r3, r4] \<and>
      r1 = 25 - spec_height 400 0 100 \<and>
      r2 = 50 - (25 + (spec_height 400 200 200 - spec_height 400 200 100)) \<and>
      r3 = 19620 * (spec_slope 400 200 100 - spec_slope 400 0 100) - 4905 \<and>
      r4 = 19620 * sqrt (1 + (spec_slope 400 0 0)\<^sup>2) - 19620) \<and>
   solve_gondola_position (\<lambda>F v. Return (Sol True v)) 100 2000 200 50 500 5 (981 / 100)
     = Return (Some 25) \<and>
   solve_state (\<lambda>F v. Return (Sol True v)) 100 2000 200 50 500 5 (981 / 100)
     = Return [20, 19620, 0, 200]"
proof -
  have nz: "(19620::real) \<noteq> 0" "(5::real) \<noteq> 0" "(981 / 100 :: real) \<noteq> 0" by simp_all
  have a: "19620 / (5 * (981 / 100)) = (400::real)" by simp
  have g1: "(50 / 200) * 100 = (25::real)" "2000 * (981 / 100) = (19620::real)"
    "500 * (981 / 100) = (4905::real)" "(25::real) - 5 = 20"
    by simp_all
  note at_seed = residuals_are_the_four_conditions [OF nz, of 100 2000 200 50 500 25 0 200 4905
      "\<lambda>F v. Return (Sol True v)", unfolded a g1]
  note at_biased_seed = residuals_are_the_four_conditions [OF nz, of 100 2000 200 50 500 20 0 200 4905
      "\<lambda>F v. Return (Sol True v)", unfolded a g1]
  from at_seed have 1: "\<exists>r1 r2 r3 r4.
      system 100 2000 200 50 500 5 (981 / 100) [25, 19620, 0, 200] = Return [r1, r2, r3, r4] \<and>
      r1 = 25 - spec_height 400 0 100 \<and>
      r2 = 50 - (25 + (spec_height 400 200 200 - spec_height 400 200 100)) \<and>
      r3 = 19620 * (spec_slope 400 200 100 - spec_slope 400 0 100) - 4905 \<and>
      r4 = 19620 * sqrt (1 + (spec_slope 400 0 0)\<^sup>2) - 19620"
    by blast
  from at_seed have 2: "solve_gondola_position (\<lambda>F v. Return (Sol True v)) 100 2000 200 50 500 5 (981 / 100)
     = Return (Some 25)"
    by simp
  from at_biased_seed have 3: "solve_state (\<lambda>F v. Return (Sol True v)) 100 2000 200 50 500 5 (981 / 100)
     = Return [20, 19620, 0, 200]"
    by simp
  from 1 2 3 show ?thesis by blast
qed

text \<open>
  The claim as stated fails wherever the solver reports a success that is none. With a
  solver that reports its seed as converged, at the mid-span sample of the script's own
  parameters, \<open>solve_gondola_position\<close> returns the height 25 and \<open>solve_state\<close> the
  seed, while the force residual there is below \<open>- 4905\<close>: the gondola's weight is not
  carried, and the four conditions fail for every tolerance up to 4905.
\<close>

theorem converged_without_equilibrium_counterexample:
  "solve_gondola_position (\<lambda>F v. Return (Sol True v)) 100 2000 200 50 500 5 (981 / 100)
     = Return (Some 25) \<and>
   solve_state (\<lambda>F v. Return (Sol True v)) 100 2000 200 50 500 5 (981 / 100)
     = Return [20, 19620, 0, 200] \<and>
   system 100 2000 200 50 500 5 (981 / 100) [20, 19620, 0, 200] =
     Return [420 - 400 * cosh (1 / 4), 400 * cosh (1 / 4) - 370, - 39240 * sinh (1 / 4) - 4905, 0] \<and>
   - 39240 * sinh (1 / 4) - 4905 < (- 4905 :: real) \<and>
   \<not> spec_equilibrium_within 4905 100 2000 200 50 500 5 (981 / 100) 20 19620 0 200 \<and>
   \<not> spec_equilibrium_within 4905 100 2000 200 50 500 5 (981 / 100) 25 19620 0 200"
proof -
  have s: "(0::real) < sinh (1 / 4)" by simp
  have 1: "solve_gondola_position (\<lambda>F v. Return (Sol True v)) 100 2000 200 50 500 5 (981 / 100)
     = Return (Some 25)"
    by (simp add: solve_interior_cases)
  have 2: "solve_state (\<lambda>F v. Return (Sol True v)) 100 2000 200 50 500 5 (981 / 100)
     = Return [20, 19620, 0, 200]"
    by (simp add: solve_state_def solve_state_guess_def py_div_def)
  have 3: "system 100 2000 200 50 500 5 (981 / 100) [20, 19620, 0, 200] =
     Return [420 - 400 * cosh (1 / 4), 400 * cosh (1 / 4) - 370, - 39240 * sinh (1 / 4) - 4905, 0]"
    by (simp add: Let_def)
  have 4: "- 39240 * sinh (1 / 4) - 4905 < (- 4905 :: real)"
    using s by simp
  have force: "19620 * (spec_slope 400 200 100 - spec_slope 400 0 100) - 4905
               = - 39240 * sinh (1 / 4) - (4905::real)"
    by (simp add: spec_slope_def)
  have nf: "\<not> \<bar>19620 * (spec_slope 400 200 100 - spec_slope 400 0 100) - 4905\<bar> < (4905::real)"
    unfolding force using 4 by linarith
  have a: "19620 / (5 * (981 / 100)) = (400::real)" "500 * (981 / 100) = (4905::real)" by simp_all
  have 5: "\<not> spec_equilibrium_within 4905 100 2000 200 50 500 5 (981 / 100) y 19620 0 200" for y
    unfolding spec_equilibrium_within_def Let_def a using nf by blast
  from 1 2 3 4 5 show ?thesis by blast
qed

section \<open>The sign of the tension\<close>

text \<open>
  Claim C4, as amended. The claim reads: throughout the iteration H_tension is kept
  strictly positive, iterates or seeds implying \<open>a \<le> 0\<close> being rejected or re-seeded
  rather than evaluated, and every converged solution has \<open>H_tension > 0\<close>. The code has
  no such guard. What holds: for \<open>M_cw > 0\<close>, \<open>g > 0\<close> and \<open>lam > 0\<close> the seed's tension
  \<open>M_cw * g\<close> and its catenary constant are strictly positive; beyond the seed the
  residual function computes \<open>a = H_tension / (lam * g)\<close> for whatever non-zero tension
  it is given, negative ones included, and returns the four residuals formed with that
  \<open>a\<close>; and a solve reported successful is returned whatever its tension is.
\<close>

theorem tension_seed_positive_no_guard:
  assumes "0 < M_cw" "0 < g" "0 < lam" "0 < x_g" "x_g < D" "Ht \<noteq> 0"
  shows "vars_guess x_g M_cw D H g = Return [(H / D) * x_g, M_cw * g, 0, D] \<and>
         0 < M_cw * g \<and> 0 < (M_cw * g) / (lam * g) \<and>
         (let a = Ht / (lam * g) in
            system x_g M_cw D H m_g lam g [y, Ht, c1, c2] =
              Return [y - (a * cosh ((x_g - c1) / a) - a * cosh (- c1 / a)),
                      H - (a * cosh ((D - c2) / a) + (y - a * cosh ((x_g - c2) / a))),
                      Ht * (sinh ((x_g - c2) / a) - sinh ((x_g - c1) / a)) - m_g * g,
                      Ht * sqrt (1 + (sinh (- c1 / a))\<^sup>2) - M_cw * g]) \<and>
         (rt (system x_g M_cw D H m_g lam g) [(H / D) * x_g, M_cw * g, 0, D]
            = Return (Sol True [y, Ht, c1, c2])
          \<longrightarrow> solve_gondola_position rt x_g M_cw D H m_g lam g = Return (Some y))"
  using assms
  by (simp add: vars_guess_def py_div_def solve_interior_cases Let_def)

theorem tension_seed_positive_no_guard_witness:
  "vars_guess 100 2000 200 50 (981 / 100) = Return [25, 19620, 0, 200] \<and>
   (0::real) < 2000 * (981 / 100) \<and>
   system 100 2000 200 50 500 5 (981 / 100) [25, - (981 / 20), 0, 200] =
     Return [24 + cosh 100, 26 - cosh 100, - (981 / 10) * sinh 100 - 4905, - (393381 / 20)] \<and>
   solve_gondola_position (\<lambda>F v. Return (Sol True [25, - (981 / 20), 0, 200]))
     100 2000 200 50 500 5 (981 / 100) = Return (Some 25)"
  using tension_seed_positive_no_guard [of 2000 "981 / 100" 5 100 200 "- (981 / 20)" 50 500 25 0 200
      "\<lambda>F v. Return (Sol True [25, - (981 / 20), 0, 200])"]
  by (simp add: Let_def)

text \<open>
  The claim as stated fails. At the mid-span sample of the script's own parameters an
  iterate with the tension \<open>- 49.05\<close>, that is \<open>a = - 1\<close>, is evaluated like any other:
  the residual function returns the four residuals computed with \<open>a = - 1\<close>. And a solve
  that reports success at that iterate is accepted.
\<close>

theorem nonpositive_tension_evaluated_counterexample:
  "system 100 2000 200 50 500 5 (981 / 100) [25, - (981 / 20), 0, 200] =
     Return [24 + cosh 100, 26 - cosh 100, - (981 / 10) * sinh 100 - 4905, - (393381 / 20)] \<and>
   solve_gondola_position (\<lambda>F v. Return (Sol True [25, - (981 / 20), 0, 200]))
     100 2000 200 50 500 5 (981 / 100) = Return (Some 25)"
  by (simp add: solve_interior_cases Let_def)

end
